theory Spec2Isabelle
  imports Main
begin

section \<open>The camera page controller (static/js/camera.js)\<close>

text \<open>
  The script is one \<open>DOMContentLoaded\<close> listener that looks up five elements, defines
  \<open>initVideoFeed\<close> and \<open>checkStatus\<close>, installs the click listeners of the two buttons and
  starts polling. It runs on a single thread: an async function runs until its next
  \<open>await\<close>, is suspended there, and is resumed when the awaited promise settles. The
  model follows that shape. The page is a record; every synchronous stretch of a function is a
  function from page to page; a suspended function is an entry of the \<open>pending\<close> list; the
  browser's events (clicks, settled promises, timers, stream errors, passing time) are the
  labels of a step function.
\<close>

subsection \<open>Values received from the server\<close>

text \<open>
  A JavaScript number is seen by the script through two operations only: its truthiness
  (\<open>data.running ? ... : ...\<close>) and its conversion to a string (\<open>new Error(data.message)\<close>).
  A number is therefore represented by what these two operations return for it.
\<close>

datatype jsnum = JsNum (is_zero: bool) (num_text: string)

text \<open>
  What \<open>response.json()\<close> resolves to. An object is the list of its own properties (after
  parsing, so every key occurs once). \<open>undefined\<close>, the value of a missing property, is
  \<open>None\<close> of \<open>json option\<close>.
\<close>

datatype json =
    JNull
  | JBool bool
  | JNum jsnum
  | JStr string
  | JArr "json list"
  | JObj "(string \<times> json) list"

text \<open>A thrown value: every one the script can catch is an error object with a name and a message.\<close>

datatype js_error = JsError (error_name: string) (error_message: string)

text \<open>
  Property access \<open>data.k\<close> for the three names the script reads (\<open>running\<close>, \<open>status\<close>,
  \<open>message\<close>), none of which exists on the prototype of a boolean, number, string, array or
  plain object. Reading a property of \<open>null\<close> throws a TypeError (the message is V8's).
\<close>

fun get_prop :: "json \<Rightarrow> string \<Rightarrow> js_error + json option" where
  "get_prop JNull k =
     Inl (JsError ''TypeError'' (''Cannot read properties of null (reading '' @ [CHR 0x27] @ k @ [CHR 0x27] @ '')''))"
| "get_prop (JObj kvs) k = Inr (map_of kvs k)"
| "get_prop (JBool b) k = Inr None"
| "get_prop (JNum n) k = Inr None"
| "get_prop (JStr s) k = Inr None"
| "get_prop (JArr xs) k = Inr None"

text \<open>ToBoolean, as applied by \<open>? :\<close>, by \<open>!\<close> and by the setter of \<open>disabled\<close>.\<close>

fun truthy :: "json option \<Rightarrow> bool" where
  "truthy None = False"
| "truthy (Some JNull) = False"
| "truthy (Some (JBool b)) = b"
| "truthy (Some (JNum n)) = (\<not> is_zero n)"
| "truthy (Some (JStr s)) = (s \<noteq> [])"
| "truthy (Some (JArr xs)) = True"
| "truthy (Some (JObj kvs)) = True"

text \<open>
  \<open>Array.prototype.join\<close> with separator \<open>,\<close>: the elements are converted from left to
  right, and the first conversion that throws ends the join.
\<close>

fun join_comma :: "(js_error + string) list \<Rightarrow> js_error + string" where
  "join_comma [] = Inr []"
| "join_comma [x] = x"
| "join_comma (x # y # ys) =
     (case x of
        Inl e \<Rightarrow> Inl e
      | Inr a \<Rightarrow>
          (case join_comma (y # ys) of
             Inl e \<Rightarrow> Inl e
           | Inr b \<Rightarrow> Inr (a @ '','' @ b)))"

text \<open>
  ToString on a parsed value. Inside an array \<open>null\<close> is joined as the empty string. An
  object is converted by its \<open>toString\<close> method: a parsed object inherits the one of
  \<open>Object.prototype\<close>, unless it has a key \<open>toString\<close> of its own, whose value is never a
  function; then \<open>valueOf\<close> is tried, which is either a parsed value too or returns the
  object itself, and the conversion throws a TypeError (the message is V8's).
\<close>

fun to_string :: "json \<Rightarrow> js_error + string" where
  "to_string JNull = Inr ''null''"
| "to_string (JBool b) = Inr (if b then ''true'' else ''false'')"
| "to_string (JNum n) = Inr (num_text n)"
| "to_string (JStr s) = Inr s"
| "to_string (JArr xs) =
     join_comma (map (\<lambda>x. if x = JNull then Inr [] else to_string x) xs)"
| "to_string (JObj kvs) =
     (if ''toString'' \<in> set (map fst kvs)
      then Inl (JsError ''TypeError'' ''Cannot convert object to primitive value'')
      else Inr ''[object Object]'')"

text \<open>
  \<open>new Error(m)\<close>: the message is ToString of the argument, and an \<open>undefined\<close> argument
  leaves the message of the prototype, the empty string. When ToString throws, the
  constructor throws that error (\<open>Inl\<close>) instead of returning a new one.
\<close>

definition new_Error :: "json option \<Rightarrow> js_error + js_error" where
  "new_Error m =
     (case m of
        None \<Rightarrow> Inr (JsError ''Error'' [])
      | Some v \<Rightarrow>
          (case to_string v of
             Inl e \<Rightarrow> Inl e
           | Inr t \<Rightarrow> Inr (JsError ''Error'' t)))"

text \<open>How an awaited promise settles.\<close>

datatype 'a settled = Rejected js_error | Fulfilled 'a

subsection \<open>Date.now() in a URL\<close>

text \<open>
  \<open>"/video_feed?" + Date.now()\<close> appends the decimal digits of the clock reading, a
  non-negative whole number of milliseconds.
\<close>

definition digit :: "nat \<Rightarrow> char" where
  "digit d = ''0123456789'' ! d"

fun show_nat :: "nat \<Rightarrow> string" where
  "show_nat n = (if n < 10 then [digit n] else show_nat (n div 10) @ [digit (n mod 10)])"

declare show_nat.simps [simp del]

subsection \<open>The page\<close>

record request =
  req_url :: string
  req_method :: string
  req_headers :: "(string \<times> string) list"

text \<open>The async functions of the script, and where one of them can be suspended.\<close>

datatype fn = CheckStatus | StartClick | StopClick

datatype cont = AwaitFetch fn | AwaitJson fn

text \<open>The only function ever handed to \<open>setTimeout\<close>.\<close>

datatype callback = InitVideoFeed

record timer =
  timer_callback :: callback
  timer_set_at :: nat
  timer_delay :: nat

text \<open>
  The fields of the five elements that the script writes, and what the script has handed to
  the browser: the lines written with \<open>console.error\<close>, the requests issued with \<open>fetch\<close>
  (oldest first), the suspended async functions, the timeouts not yet run, the time at which
  the polling interval fires next, and the clock in milliseconds.
\<close>

record page =
  videoFeed_src :: string
  videoFeed_onerror :: bool
  errorDiv_textContent :: string
  errorDiv_display :: string
  statusDiv_textContent :: string
  statusDiv_color :: string
  startBtn_disabled :: bool
  stopBtn_disabled :: bool
  console :: "(string \<times> js_error) list"
  requests :: "request list"
  pending :: "cont list"
  timeouts :: "timer list"
  poll_due :: "nat option"
  now :: nat

subsection \<open>initVideoFeed (lines 9-16)\<close>

definition initVideoFeed :: "page \<Rightarrow> page" where
  "initVideoFeed s =
     s\<lparr>videoFeed_src := ''/video_feed?'' @ show_nat (now s), videoFeed_onerror := True\<rparr>"

text \<open>The function assigned to \<open>videoFeed.onerror\<close> (lines 11-15).\<close>

definition onerror :: "page \<Rightarrow> page" where
  "onerror s =
     s\<lparr>errorDiv_textContent := ''Video feed error. Retrying...'',
       errorDiv_display := ''block'',
       timeouts := timeouts s @
         [\<lparr>timer_callback = InitVideoFeed, timer_set_at = now s, timer_delay = 2000\<rparr>]\<rparr>"

subsection \<open>checkStatus (lines 19-30)\<close>

text \<open>\<open>await fetch(...)\<close>: the request goes out and the calling function is suspended.\<close>

definition fetch :: "request \<Rightarrow> fn \<Rightarrow> page \<Rightarrow> page" where
  "fetch r f s = s\<lparr>requests := requests s @ [r], pending := pending s @ [AwaitFetch f]\<rparr>"

definition status_request :: request where
  "status_request = \<lparr>req_url = ''/status'', req_method = ''GET'', req_headers = []\<rparr>"

definition checkStatus :: "page \<Rightarrow> page" where
  "checkStatus s = fetch status_request CheckStatus s"

definition checkStatus_catch :: "js_error \<Rightarrow> page \<Rightarrow> page" where
  "checkStatus_catch e s = s\<lparr>console := console s @ [(''Status check error:'', e)]\<rparr>"

text \<open>
  Lines 23-26. The first read of \<open>data.running\<close> happens while the template literal is
  evaluated, before anything is assigned, so a throw leaves the page as it was.
\<close>

definition checkStatus_body :: "json \<Rightarrow> page \<Rightarrow> js_error + page" where
  "checkStatus_body data s =
     (case get_prop data ''running'' of
        Inl e \<Rightarrow> Inl e
      | Inr running \<Rightarrow>
          Inr (s\<lparr>statusDiv_textContent :=
                   ''Status: '' @ (if truthy running then ''Running'' else ''Not Running''),
                 statusDiv_color := (if truthy running then ''green'' else ''red''),
                 startBtn_disabled := truthy running,
                 stopBtn_disabled := (\<not> truthy running)\<rparr>))"

text \<open>Resuming after \<open>await fetch('/status')\<close>, then after \<open>await response.json()\<close>.\<close>

definition checkStatus_response :: "unit settled \<Rightarrow> page \<Rightarrow> page" where
  "checkStatus_response r s =
     (case r of
        Rejected e \<Rightarrow> checkStatus_catch e s
      | Fulfilled u \<Rightarrow> s\<lparr>pending := pending s @ [AwaitJson CheckStatus]\<rparr>)"

definition checkStatus_data :: "json settled \<Rightarrow> page \<Rightarrow> page" where
  "checkStatus_data r s =
     (case r of
        Rejected e \<Rightarrow> checkStatus_catch e s
      | Fulfilled data \<Rightarrow>
          (case checkStatus_body data s of
             Inl e \<Rightarrow> checkStatus_catch e s
           | Inr s' \<Rightarrow> s'))"

subsection \<open>The click listener of the start button (lines 33-49)\<close>

definition start_request :: request where
  "start_request =
     \<lparr>req_url = ''/start'', req_method = ''POST'',
      req_headers = [(''Content-Type'', ''application/json'')]\<rparr>"

definition startBtn_click :: "page \<Rightarrow> page" where
  "startBtn_click s = fetch start_request StartClick s"

definition start_catch :: "js_error \<Rightarrow> page \<Rightarrow> page" where
  "start_catch e s =
     s\<lparr>errorDiv_textContent := error_message e, errorDiv_display := ''block''\<rparr>"

text \<open>
  Lines 40-44: \<open>===\<close> holds only for the string \<open>error\<close> itself. Line 41 throws the
  new error, or the error that its constructor threw.
\<close>

definition start_body :: "json \<Rightarrow> page \<Rightarrow> js_error + page" where
  "start_body data s =
     (case get_prop data ''status'' of
        Inl e \<Rightarrow> Inl e
      | Inr status \<Rightarrow>
          if status = Some (JStr ''error'')
          then (case get_prop data ''message'' of
                  Inl e \<Rightarrow> Inl e
                | Inr m \<Rightarrow>
                    (case new_Error m of
                       Inl e \<Rightarrow> Inl e
                     | Inr err \<Rightarrow> Inl err))
          else Inr (checkStatus (initVideoFeed s)))"

definition start_response :: "unit settled \<Rightarrow> page \<Rightarrow> page" where
  "start_response r s =
     (case r of
        Rejected e \<Rightarrow> start_catch e s
      | Fulfilled u \<Rightarrow> s\<lparr>pending := pending s @ [AwaitJson StartClick]\<rparr>)"

definition start_data :: "json settled \<Rightarrow> page \<Rightarrow> page" where
  "start_data r s =
     (case r of
        Rejected e \<Rightarrow> start_catch e s
      | Fulfilled data \<Rightarrow>
          (case start_body data s of
             Inl e \<Rightarrow> start_catch e s
           | Inr s' \<Rightarrow> s'))"

subsection \<open>The click listener of the stop button (lines 51-63)\<close>

definition stop_request :: request where
  "stop_request =
     \<lparr>req_url = ''/stop'', req_method = ''POST'',
      req_headers = [(''Content-Type'', ''application/json'')]\<rparr>"

definition stopBtn_click :: "page \<Rightarrow> page" where
  "stopBtn_click s = fetch stop_request StopClick s"

definition stop_catch :: "js_error \<Rightarrow> page \<Rightarrow> page" where
  "stop_catch e s =
     s\<lparr>errorDiv_textContent := ''Failed to stop detection'', errorDiv_display := ''block''\<rparr>"

definition stop_response :: "unit settled \<Rightarrow> page \<Rightarrow> page" where
  "stop_response r s =
     (case r of
        Rejected e \<Rightarrow> stop_catch e s
      | Fulfilled u \<Rightarrow> s\<lparr>pending := pending s @ [AwaitJson StopClick]\<rparr>)"

definition stop_data :: "json settled \<Rightarrow> page \<Rightarrow> page" where
  "stop_data r s =
     (case r of
        Rejected e \<Rightarrow> stop_catch e s
      | Fulfilled data \<Rightarrow> checkStatus s)"

subsection \<open>Start-up (lines 65-68)\<close>

definition main :: "page \<Rightarrow> page" where
  "main s = (checkStatus (initVideoFeed s))\<lparr>poll_due := Some (now s + 3000)\<rparr>"

subsection \<open>The browser's events\<close>

datatype event =
    ClickStart
  | ClickStop
  | VideoError
  | TimeoutFires nat
  | IntervalFires
  | FetchSettles nat "unit settled"
  | JsonSettles nat "json settled"
  | Advance nat

definition remove_nth :: "nat \<Rightarrow> 'a list \<Rightarrow> 'a list" where
  "remove_nth i xs = take i xs @ drop (Suc i) xs"

fun resume_fetch :: "fn \<Rightarrow> unit settled \<Rightarrow> page \<Rightarrow> page" where
  "resume_fetch CheckStatus r s = checkStatus_response r s"
| "resume_fetch StartClick r s = start_response r s"
| "resume_fetch StopClick r s = stop_response r s"

fun resume_json :: "fn \<Rightarrow> json settled \<Rightarrow> page \<Rightarrow> page" where
  "resume_json CheckStatus r s = checkStatus_data r s"
| "resume_json StartClick r s = start_data r s"
| "resume_json StopClick r s = stop_data r s"

fun run_callback :: "callback \<Rightarrow> page \<Rightarrow> page" where
  "run_callback InitVideoFeed s = initVideoFeed s"

text \<open>
  One event on the loaded page; \<open>None\<close> when the browser cannot deliver it in this state: a
  disabled button is not clicked, a timeout does not run before its delay has passed, and
  only a suspended function is resumed, at the await where it waits. A stream error reaches
  the script through \<open>videoFeed.onerror\<close>.
\<close>

fun step :: "event \<Rightarrow> page \<Rightarrow> page option" where
  "step ClickStart s = (if startBtn_disabled s then None else Some (startBtn_click s))"
| "step ClickStop s = (if stopBtn_disabled s then None else Some (stopBtn_click s))"
| "step VideoError s = Some (if videoFeed_onerror s then onerror s else s)"
| "step (TimeoutFires i) s =
     (if i < length (timeouts s)
         \<and> timer_set_at (timeouts s ! i) + timer_delay (timeouts s ! i) \<le> now s
      then Some (run_callback (timer_callback (timeouts s ! i))
                   (s\<lparr>timeouts := remove_nth i (timeouts s)\<rparr>))
      else None)"
| "step IntervalFires s =
     (case poll_due s of
        None \<Rightarrow> None
      | Some d \<Rightarrow>
          if d \<le> now s then Some (checkStatus (s\<lparr>poll_due := Some (now s + 3000)\<rparr>))
          else None)"
| "step (FetchSettles i r) s =
     (if i < length (pending s) then
        (case pending s ! i of
           AwaitFetch f \<Rightarrow> Some (resume_fetch f r (s\<lparr>pending := remove_nth i (pending s)\<rparr>))
         | AwaitJson f \<Rightarrow> None)
      else None)"
| "step (JsonSettles i r) s =
     (if i < length (pending s) then
        (case pending s ! i of
           AwaitFetch f \<Rightarrow> None
         | AwaitJson f \<Rightarrow> Some (resume_json f r (s\<lparr>pending := remove_nth i (pending s)\<rparr>)))
      else None)"
| "step (Advance d) s = Some (s\<lparr>now := now s + d\<rparr>)"

fun run :: "event list \<Rightarrow> page \<Rightarrow> page option" where
  "run [] s = Some s"
| "run (ev # evs) s = (case step ev s of None \<Rightarrow> None | Some s' \<Rightarrow> run evs s')"

text \<open>A page as the document may deliver it: nothing shown, both buttons enabled.\<close>

definition page0 :: page where
  "page0 =
     \<lparr>videoFeed_src = [], videoFeed_onerror = False,
      errorDiv_textContent = [], errorDiv_display = ''none'',
      statusDiv_textContent = [], statusDiv_color = [],
      startBtn_disabled = False, stopBtn_disabled = False,
      console = [], requests = [], pending = [], timeouts = [],
      poll_due = None, now = 1000\<rparr>"

subsection \<open>Predicates used in the statements\<close>

text \<open>
  Every timeout waiting to run was set with a delay of 2000 ms, and the stream element has
  its \<open>onerror\<close> handler.
\<close>

definition timers_ok :: "page \<Rightarrow> bool" where
  "timers_ok s = (videoFeed_onerror s \<and> list_all (\<lambda>t. timer_delay t = 2000) (timeouts s))"

text \<open>
  The settlements on which a handler that writes the banner fails: a rejected request of
  start or stop, a rejected body of start or stop, and a parsed body of start on which line
  40 or 41 throws. No settlement is a failure for \<open>checkStatus\<close>, whose catch block only
  logs, and a parsed body is never a failure for stop.
\<close>

fun fetch_failure :: "fn \<Rightarrow> unit settled \<Rightarrow> bool" where
  "fetch_failure StartClick (Rejected e) = True"
| "fetch_failure StopClick (Rejected e) = True"
| "fetch_failure CheckStatus (Rejected e) = False"
| "fetch_failure f (Fulfilled u) = False"

fun json_failure :: "fn \<Rightarrow> json settled \<Rightarrow> bool" where
  "json_failure StartClick (Rejected e) = True"
| "json_failure StartClick (Fulfilled data) =
     (data = JNull \<or> get_prop data ''status'' = Inr (Some (JStr ''error'')))"
| "json_failure StopClick (Rejected e) = True"
| "json_failure StopClick (Fulfilled data) = False"
| "json_failure CheckStatus r = False"

text \<open>
  The events that report a failure to the banner: a stream error, and the settlement of a
  promise for which the function suspended on it fails as above.
\<close>

definition failure_event :: "event \<Rightarrow> page \<Rightarrow> bool" where
  "failure_event ev s =
     (case ev of
        VideoError \<Rightarrow> True
      | FetchSettles i r \<Rightarrow>
          i < length (pending s) \<and>
          (case pending s ! i of AwaitFetch f \<Rightarrow> fetch_failure f r | AwaitJson f \<Rightarrow> False)
      | JsonSettles i r \<Rightarrow>
          i < length (pending s) \<and>
          (case pending s ! i of AwaitFetch f \<Rightarrow> False | AwaitJson f \<Rightarrow> json_failure f r)
      | _ \<Rightarrow> False)"

text \<open>Bodies the server sends on \<open>/start\<close>.\<close>

definition ok_body :: json where
  "ok_body = JObj [(''status'', JStr ''ok'')]"


section \<open>Properties\<close>

lemmas seg_defs =
  checkStatus_data_def checkStatus_response_def checkStatus_body_def checkStatus_catch_def
  checkStatus_def fetch_def initVideoFeed_def onerror_def
  start_data_def start_response_def start_body_def start_catch_def startBtn_click_def
  stop_data_def stop_response_def stop_catch_def stopBtn_click_def

lemmas eval_defs =
  main_def page0_def remove_nth_def new_Error_def
  status_request_def start_request_def stop_request_def digit_def

subsection \<open>Decimal digits determine the number\<close>

lemma digit_inj: "a < 10 \<Longrightarrow> b < 10 \<Longrightarrow> digit a = digit b \<Longrightarrow> a = b"
  unfolding digit_def by (subst (asm) nth_eq_iff_index_eq) simp_all

lemma show_nat_nonempty: "show_nat n \<noteq> []"
  by (subst show_nat.simps) simp

lemma show_nat_inj: "show_nat m = show_nat n \<Longrightarrow> m = n"
proof (induction m arbitrary: n rule: show_nat.induct)
  case (1 m)
  show ?case
  proof (cases "m < 10")
    case True
    note m = this
    show ?thesis
    proof (cases "n < 10")
      case True
      with m "1.prems" show ?thesis
        by (simp add: show_nat.simps [of m] show_nat.simps [of n] digit_inj)
    next
      case False
      with m "1.prems" show ?thesis
        using show_nat_nonempty [of "n div 10"]
        by (simp add: show_nat.simps [of m] show_nat.simps [of n])
    qed
  next
    case False
    note m = this
    show ?thesis
    proof (cases "n < 10")
      case True
      with m "1.prems" show ?thesis
        using show_nat_nonempty [of "m div 10"]
        by (simp add: show_nat.simps [of m] show_nat.simps [of n])
    next
      case False
      with m "1.prems" have eq: "show_nat (m div 10) = show_nat (n div 10)"
        and d: "digit (m mod 10) = digit (n mod 10)"
        by (simp_all add: show_nat.simps [of m] show_nat.simps [of n])
      from "1.IH" [OF m eq] have "m div 10 = n div 10" .
      moreover from d have "m mod 10 = n mod 10" by (simp add: digit_inj)
      ultimately show ?thesis by (metis div_mult_mod_eq)
    qed
  qed
qed

subsection \<open>Invariants of the event loop\<close>

lemma resume_fetch_display:
  "errorDiv_display s = ''block'' \<Longrightarrow> errorDiv_display (resume_fetch f r s) = ''block''"
  by (cases f; cases r) (simp_all add: seg_defs)

lemma resume_json_display:
  "errorDiv_display s = ''block'' \<Longrightarrow> errorDiv_display (resume_json f r s) = ''block''"
  by (cases f; cases r) (simp_all add: seg_defs split: sum.splits)

lemma step_display:
  "step ev s = Some s' \<Longrightarrow> errorDiv_display s = ''block'' \<Longrightarrow> errorDiv_display s' = ''block''"
proof (cases ev)
  case (TimeoutFires i)
  then show "step ev s = Some s' \<Longrightarrow> errorDiv_display s = ''block'' \<Longrightarrow> errorDiv_display s' = ''block''"
    by (cases "timer_callback (timeouts s ! i)") (auto simp: initVideoFeed_def split: if_splits)
next
  case (FetchSettles i r)
  then show "step ev s = Some s' \<Longrightarrow> errorDiv_display s = ''block'' \<Longrightarrow> errorDiv_display s' = ''block''"
    by (auto simp: resume_fetch_display split: if_splits cont.splits)
next
  case (JsonSettles i r)
  then show "step ev s = Some s' \<Longrightarrow> errorDiv_display s = ''block'' \<Longrightarrow> errorDiv_display s' = ''block''"
    by (auto simp: resume_json_display split: if_splits cont.splits)
qed (auto simp: seg_defs split: if_splits option.splits)

lemma run_display:
  "run evs s = Some s' \<Longrightarrow> errorDiv_display s = ''block'' \<Longrightarrow> errorDiv_display s' = ''block''"
proof (induction evs arbitrary: s)
  case Nil
  then show ?case by simp
next
  case (Cons ev evs)
  then obtain s1 where s1: "step ev s = Some s1" and r: "run evs s1 = Some s'"
    by (auto split: option.splits)
  from step_display [OF s1 Cons.prems(2)] have "errorDiv_display s1 = ''block''" .
  with Cons.IH [OF r] show ?case .
qed

lemma resume_fetch_text:
  "errorDiv_textContent (resume_fetch f r s) \<noteq> errorDiv_textContent s \<Longrightarrow> fetch_failure f r"
  by (cases f; cases r) (auto simp: seg_defs)

lemma start_body_Inr:
  assumes "data \<noteq> JNull" and "get_prop data ''status'' \<noteq> Inr (Some (JStr ''error''))"
  shows "start_body data s = Inr (checkStatus (initVideoFeed s))"
  using assms by (cases data) (auto simp: start_body_def)

lemma resume_json_text:
  assumes ch: "errorDiv_textContent (resume_json f r s) \<noteq> errorDiv_textContent s"
  shows "json_failure f r"
proof (cases f)
  case CheckStatus
  with ch show ?thesis
    by (cases r) (auto simp: checkStatus_data_def checkStatus_body_def checkStatus_catch_def
        split: sum.splits)
next
  case StopClick
  with ch show ?thesis
    by (cases r) (auto simp: stop_data_def stop_catch_def checkStatus_def fetch_def)
next
  case StartClick
  show ?thesis
  proof (cases r)
    case (Rejected e)
    with StartClick show ?thesis by simp
  next
    case (Fulfilled data)
    show ?thesis
    proof (rule ccontr)
      assume "\<not> json_failure f r"
      with StartClick Fulfilled have "data \<noteq> JNull"
        and "get_prop data ''status'' \<noteq> Inr (Some (JStr ''error''))"
        by simp_all
      then have "start_body data s = Inr (checkStatus (initVideoFeed s))"
        by (rule start_body_Inr)
      with ch StartClick Fulfilled show False
        by (simp add: start_data_def checkStatus_def fetch_def initVideoFeed_def)
    qed
  qed
qed

lemma step_text:
  assumes st: "step ev s = Some s'"
    and ch: "errorDiv_textContent s' \<noteq> errorDiv_textContent s"
  shows "failure_event ev s"
proof (cases ev)
  case ClickStart
  with st ch show ?thesis by (auto simp: seg_defs split: if_splits)
next
  case ClickStop
  with st ch show ?thesis by (auto simp: seg_defs split: if_splits)
next
  case VideoError
  then show ?thesis by (simp add: failure_event_def)
next
  case (TimeoutFires i)
  with st ch show ?thesis
    by (cases "timer_callback (timeouts s ! i)") (auto simp: initVideoFeed_def split: if_splits)
next
  case IntervalFires
  with st ch show ?thesis by (auto simp: seg_defs split: if_splits option.splits)
next
  case (FetchSettles i r)
  with st obtain f where i: "i < length (pending s)" and f: "pending s ! i = AwaitFetch f"
    and s': "s' = resume_fetch f r (s\<lparr>pending := remove_nth i (pending s)\<rparr>)"
    by (auto split: if_splits cont.splits)
  from ch s' have "errorDiv_textContent (resume_fetch f r (s\<lparr>pending := remove_nth i (pending s)\<rparr>))
      \<noteq> errorDiv_textContent (s\<lparr>pending := remove_nth i (pending s)\<rparr>)"
    by simp
  then have "fetch_failure f r"
    by (rule resume_fetch_text)
  with FetchSettles i f show ?thesis by (simp add: failure_event_def)
next
  case (JsonSettles i r)
  with st obtain f where i: "i < length (pending s)" and f: "pending s ! i = AwaitJson f"
    and s': "s' = resume_json f r (s\<lparr>pending := remove_nth i (pending s)\<rparr>)"
    by (auto split: if_splits cont.splits)
  from ch s' have "errorDiv_textContent (resume_json f r (s\<lparr>pending := remove_nth i (pending s)\<rparr>))
      \<noteq> errorDiv_textContent (s\<lparr>pending := remove_nth i (pending s)\<rparr>)"
    by simp
  then have "json_failure f r"
    by (rule resume_json_text)
  with JsonSettles i f show ?thesis by (simp add: failure_event_def)
next
  case (Advance d)
  with st ch show ?thesis by auto
qed

lemma list_all_remove_nth: "list_all P xs \<Longrightarrow> list_all P (remove_nth i xs)"
  unfolding remove_nth_def list_all_iff by (auto dest: in_set_takeD in_set_dropD)

lemma timers_ok_main: "timeouts s = [] \<Longrightarrow> timers_ok (main s)"
  by (simp add: timers_ok_def main_def checkStatus_def fetch_def initVideoFeed_def)

lemma resume_fetch_timers: "timers_ok s \<Longrightarrow> timers_ok (resume_fetch f r s)"
  by (cases f; cases r) (simp_all add: seg_defs timers_ok_def)

lemma resume_json_timers: "timers_ok s \<Longrightarrow> timers_ok (resume_json f r s)"
  by (cases f; cases r) (simp_all add: seg_defs timers_ok_def split: sum.splits)

lemma step_timers:
  assumes st: "step ev s = Some s'" and ok: "timers_ok s"
  shows "timers_ok s'"
proof (cases ev)
  case (TimeoutFires i)
  with st ok show ?thesis
    by (cases "timer_callback (timeouts s ! i)")
      (auto simp: initVideoFeed_def timers_ok_def list_all_remove_nth split: if_splits)
next
  case (FetchSettles i r)
  with st obtain f where "s' = resume_fetch f r (s\<lparr>pending := remove_nth i (pending s)\<rparr>)"
    by (auto split: if_splits cont.splits)
  moreover from ok have "timers_ok (s\<lparr>pending := remove_nth i (pending s)\<rparr>)"
    by (simp add: timers_ok_def)
  ultimately show ?thesis by (simp add: resume_fetch_timers)
next
  case (JsonSettles i r)
  with st obtain f where "s' = resume_json f r (s\<lparr>pending := remove_nth i (pending s)\<rparr>)"
    by (auto split: if_splits cont.splits)
  moreover from ok have "timers_ok (s\<lparr>pending := remove_nth i (pending s)\<rparr>)"
    by (simp add: timers_ok_def)
  ultimately show ?thesis by (simp add: resume_json_timers)
qed (use st ok in \<open>auto simp: seg_defs timers_ok_def split: if_splits option.splits\<close>)

lemma run_timers: "run evs s = Some s' \<Longrightarrow> timers_ok s \<Longrightarrow> timers_ok s'"
proof (induction evs arbitrary: s)
  case Nil
  then show ?case by simp
next
  case (Cons ev evs)
  then obtain s1 where s1: "step ev s = Some s1" and r: "run evs s1 = Some s'"
    by (auto split: option.splits)
  from step_timers [OF s1 Cons.prems(2)] have "timers_ok s1" .
  with Cons.IH [OF r] show ?case .
qed

subsection \<open>The status poll\<close>



text \<open>
  Claim C6. A status poll that fails, because \<open>fetch\<close> rejects or because the body does not
  parse, only writes the error to the console: the status text and colour, the two buttons,
  the error banner and everything else on the page stay as they were, and nothing is
  scheduled or requested.
\<close>

theorem checkStatus_failure_only_logs:
  "checkStatus_response (Rejected e) s =
     s\<lparr>console := console s @ [(''Status check error:'', e)]\<rparr>
   \<and> checkStatus_data (Rejected e) s =
     s\<lparr>console := console s @ [(''Status check error:'', e)]\<rparr>
   \<and> statusDiv_textContent (checkStatus_data (Rejected e) s) = statusDiv_textContent s
   \<and> statusDiv_color (checkStatus_data (Rejected e) s) = statusDiv_color s
   \<and> startBtn_disabled (checkStatus_data (Rejected e) s) = startBtn_disabled s
   \<and> stopBtn_disabled (checkStatus_data (Rejected e) s) = stopBtn_disabled s
   \<and> errorDiv_textContent (checkStatus_data (Rejected e) s) = errorDiv_textContent s
   \<and> errorDiv_display (checkStatus_data (Rejected e) s) = errorDiv_display s"
  by (simp add: checkStatus_response_def checkStatus_data_def checkStatus_catch_def)




subsection \<open>Start\<close>



text \<open>
  Claim C3, as the script has it. When the body of the start response is \<open>{"status":"ok"}\<close>,
  the start handler sets the stream source to the video endpoint followed by the current
  reading of the clock, and in the same stretch issues one status request, without waiting
  for the polling interval. The timestamp in the source changes exactly when the clock
  reading differs from the one in the source so far.
\<close>

theorem start_ok_reloads_and_rechecks:
  assumes "get_prop data ''status'' = Inr (Some (JStr ''ok''))"
  shows "start_data (Fulfilled data) s = checkStatus (initVideoFeed s)
         \<and> videoFeed_src (start_data (Fulfilled data) s) = ''/video_feed?'' @ show_nat (now s)
         \<and> requests (start_data (Fulfilled data) s) = requests s @ [status_request]
         \<and> pending (start_data (Fulfilled data) s) = pending s @ [AwaitFetch CheckStatus]
         \<and> poll_due (start_data (Fulfilled data) s) = poll_due s
         \<and> (videoFeed_src s = ''/video_feed?'' @ show_nat t \<longrightarrow>
              (videoFeed_src (start_data (Fulfilled data) s) \<noteq> videoFeed_src s) = (now s \<noteq> t))"
  using assms
  by (auto simp: start_data_def start_body_def checkStatus_def fetch_def initVideoFeed_def
      dest: show_nat_inj)

theorem start_ok_reloads_and_rechecks_witness:
  "get_prop ok_body ''status'' = Inr (Some (JStr ''ok''))
   \<and> videoFeed_src ((main page0)\<lparr>now := 1250\<rparr>) = ''/video_feed?'' @ show_nat 1000
   \<and> videoFeed_src (start_data (Fulfilled ok_body) ((main page0)\<lparr>now := 1250\<rparr>)) =
        ''/video_feed?'' @ show_nat 1250
   \<and> videoFeed_src (start_data (Fulfilled ok_body) ((main page0)\<lparr>now := 1250\<rparr>)) \<noteq>
        videoFeed_src ((main page0)\<lparr>now := 1250\<rparr>)
   \<and> requests (start_data (Fulfilled ok_body) ((main page0)\<lparr>now := 1250\<rparr>)) =
        requests (main page0) @ [status_request]"
proof -
  have ok: "get_prop ok_body ''status'' = Inr (Some (JStr ''ok''))"
    by (simp add: ok_body_def)
  have src: "videoFeed_src (main page0) = ''/video_feed?'' @ show_nat 1000"
    by (simp add: main_def page0_def checkStatus_def fetch_def initVideoFeed_def)
  from start_ok_reloads_and_rechecks [OF ok, of "(main page0)\<lparr>now := 1250\<rparr>" 1000] ok src
  show ?thesis by (auto simp: checkStatus_def fetch_def initVideoFeed_def dest: show_nat_inj)
qed

theorem start_same_millisecond_counterexample:
  "map_option videoFeed_src
     (run [ClickStart, ClickStart, Advance 40,
           FetchSettles 1 (Fulfilled ()), FetchSettles 1 (Fulfilled ()),
           JsonSettles 1 (Fulfilled ok_body)]
        (main page0)) = Some ''/video_feed?1040''
   \<and> map_option videoFeed_src
     (run [ClickStart, ClickStart, Advance 40,
           FetchSettles 1 (Fulfilled ()), FetchSettles 1 (Fulfilled ()),
           JsonSettles 1 (Fulfilled ok_body), JsonSettles 1 (Fulfilled ok_body)]
        (main page0)) = Some ''/video_feed?1040''"
  by (simp add: ok_body_def eval_defs seg_defs show_nat.simps)




subsection \<open>Stop\<close>





subsection \<open>The stream and the error banner\<close>

text \<open>
  Claim C8. On the loaded page the stream element always has its \<open>onerror\<close> handler.
  When the stream fires a load error, the banner text becomes "Video feed error. Retrying..."
  and the banner is shown in the same step, and exactly one timeout for \<open>initVideoFeed\<close> is
  set, with a delay of 2000 ms: it cannot run while less than 2000 ms have passed since the
  error, and once it runs it reloads the source and leaves the handler in place, so the next
  error is answered the same way. This holds after any sequence of events, so there is no
  limit on the number of retries and the delay never changes.
\<close>

theorem stream_error_retry:
  assumes fresh: "timeouts s0 = []" and reach: "run evs (main s0) = Some s"
  shows "step VideoError s = Some (onerror s)
         \<and> errorDiv_textContent (onerror s) = ''Video feed error. Retrying...''
         \<and> errorDiv_display (onerror s) = ''block''
         \<and> timeouts (onerror s) = timeouts s @
             [\<lparr>timer_callback = InitVideoFeed, timer_set_at = now s, timer_delay = 2000\<rparr>]
         \<and> step (TimeoutFires (length (timeouts s))) ((onerror s)\<lparr>now := now s + d\<rparr>) =
               (if d < 2000 then None
                else Some (initVideoFeed ((onerror s)\<lparr>now := now s + d, timeouts := timeouts s\<rparr>)))
         \<and> (step (TimeoutFires i) s = Some s' \<longrightarrow>
               i < length (timeouts s)
               \<and> timer_set_at (timeouts s ! i) + 2000 \<le> now s
               \<and> s' = initVideoFeed (s\<lparr>timeouts := remove_nth i (timeouts s)\<rparr>)
               \<and> videoFeed_onerror s')"
proof -
  from run_timers [OF reach timers_ok_main [OF fresh]] have ok: "timers_ok s" .
  then have on: "videoFeed_onerror s" and del: "list_all (\<lambda>t. timer_delay t = 2000) (timeouts s)"
    by (simp_all add: timers_ok_def)
  from on have a: "step VideoError s = Some (onerror s)" by simp
  have b: "errorDiv_textContent (onerror s) = ''Video feed error. Retrying...''"
    "errorDiv_display (onerror s) = ''block''"
    "timeouts (onerror s) = timeouts s @
       [\<lparr>timer_callback = InitVideoFeed, timer_set_at = now s, timer_delay = 2000\<rparr>]"
    by (simp_all add: onerror_def)
  have c: "step (TimeoutFires (length (timeouts s))) ((onerror s)\<lparr>now := now s + d\<rparr>) =
               (if d < 2000 then None
                else Some (initVideoFeed ((onerror s)\<lparr>now := now s + d, timeouts := timeouts s\<rparr>)))"
    by (simp add: onerror_def remove_nth_def)
  have d: "i < length (timeouts s) \<and> timer_set_at (timeouts s ! i) + 2000 \<le> now s
       \<and> s' = initVideoFeed (s\<lparr>timeouts := remove_nth i (timeouts s)\<rparr>) \<and> videoFeed_onerror s'"
    if st: "step (TimeoutFires i) s = Some s'"
  proof -
    from st have i: "i < length (timeouts s)" by (simp split: if_splits)
    with del have "timer_delay (timeouts s ! i) = 2000" by (simp add: list_all_length)
    with st i show ?thesis
      by (cases "timer_callback (timeouts s ! i)") (auto simp: initVideoFeed_def split: if_splits)
  qed
  from a b c d show ?thesis by blast
qed

theorem stream_error_retry_witness:
  "timeouts page0 = []
   \<and> run [Advance 5, VideoError, Advance 2000] (main page0) =
       Some ((onerror ((main page0)\<lparr>now := 1005\<rparr>))\<lparr>now := 3005\<rparr>)
   \<and> timeouts ((onerror ((main page0)\<lparr>now := 1005\<rparr>))\<lparr>now := 3005\<rparr>) =
        [\<lparr>timer_callback = InitVideoFeed, timer_set_at = 1005, timer_delay = 2000\<rparr>]
   \<and> step (TimeoutFires 0) ((onerror ((main page0)\<lparr>now := 1005\<rparr>))\<lparr>now := 3005\<rparr>) =
        Some (initVideoFeed ((main page0)
          \<lparr>errorDiv_textContent := ''Video feed error. Retrying...'',
           errorDiv_display := ''block'', now := 3005\<rparr>))
   \<and> step VideoError (initVideoFeed ((main page0)
          \<lparr>errorDiv_textContent := ''Video feed error. Retrying...'',
           errorDiv_display := ''block'', now := 3005\<rparr>)) =
        Some (onerror (initVideoFeed ((main page0)
          \<lparr>errorDiv_textContent := ''Video feed error. Retrying...'',
           errorDiv_display := ''block'', now := 3005\<rparr>)))
   \<and> step (TimeoutFires 0) ((onerror ((main page0)\<lparr>now := 1005\<rparr>))\<lparr>now := 3004\<rparr>) = None"
proof -
  have fresh: "timeouts page0 = []"
    by (simp add: page0_def)
  have r1: "run [Advance 5, VideoError, Advance 2000] (main page0) =
       Some ((onerror ((main page0)\<lparr>now := 1005\<rparr>))\<lparr>now := 3005\<rparr>)"
    by (simp add: eval_defs seg_defs)
  have r2: "run [Advance 5, VideoError, Advance 2000, TimeoutFires 0] (main page0) =
       Some (initVideoFeed ((main page0)
          \<lparr>errorDiv_textContent := ''Video feed error. Retrying...'',
           errorDiv_display := ''block'', now := 3005\<rparr>))"
    by (simp add: eval_defs seg_defs)
  have r3: "run [Advance 5] (main page0) = Some ((main page0)\<lparr>now := 1005\<rparr>)"
    by (simp add: eval_defs seg_defs)
  have st: "step (TimeoutFires 0) ((onerror ((main page0)\<lparr>now := 1005\<rparr>))\<lparr>now := 3005\<rparr>) =
        Some (initVideoFeed ((main page0)
          \<lparr>errorDiv_textContent := ''Video feed error. Retrying...'',
           errorDiv_display := ''block'', now := 3005\<rparr>))"
    by (simp add: eval_defs seg_defs)
  from stream_error_retry [OF fresh r1, of 0 0] stream_error_retry [OF fresh r2, of 0 0]
    stream_error_retry [OF fresh r3, of 1999 0] fresh r1 st
  show ?thesis
    by (simp add: eval_defs seg_defs)
qed

text \<open>
  Claim C10, as the script has it. Once the error banner has been shown, no event ever hides
  it: its \<open>display\<close> stays \<open>block\<close> through every later event, also through start, stop
  and status operations that succeed. Its text changes only on a stream error, on a start
  failure or on a stop failure, judged by the function that is suspended on the settled
  promise: never on a status poll, however it ends, and never on a stop or a start that
  succeeds. A start failure writes the message of the error, which is empty when the server
  reports status \<open>error\<close> without a message.
\<close>

theorem error_banner_stays_visible:
  "(errorDiv_display s = ''block'' \<longrightarrow> run evs s = Some s' \<longrightarrow> errorDiv_display s' = ''block'')
   \<and> (step ev p = Some p' \<longrightarrow> errorDiv_textContent p' \<noteq> errorDiv_textContent p \<longrightarrow>
        failure_event ev p)
   \<and> (get_prop data ''status'' = Inr (Some (JStr ''error'')) \<longrightarrow>
        get_prop data ''message'' = Inr None \<longrightarrow>
        errorDiv_textContent (start_data (Fulfilled data) q) = [])"
proof -
  have "errorDiv_textContent (start_data (Fulfilled data) q) = []"
    if "get_prop data ''status'' = Inr (Some (JStr ''error''))"
      and "get_prop data ''message'' = Inr None"
    using that by (simp add: start_data_def start_body_def start_catch_def new_Error_def)
  with run_display [of evs s s'] step_text [of ev p p'] show ?thesis by blast
qed

theorem error_banner_stays_visible_witness:
  "errorDiv_display (onerror (main page0)) = ''block''
   \<and> run [ClickStop, FetchSettles 1 (Fulfilled ()), JsonSettles 1 (Fulfilled (JObj []))]
        (onerror (main page0)) =
      Some (checkStatus (stopBtn_click (onerror (main page0)))\<lparr>pending :=
        [AwaitFetch CheckStatus, AwaitFetch CheckStatus]\<rparr>)
   \<and> errorDiv_display (checkStatus (stopBtn_click (onerror (main page0)))\<lparr>pending :=
        [AwaitFetch CheckStatus, AwaitFetch CheckStatus]\<rparr>) = ''block''
   \<and> step (FetchSettles 1 (Rejected (JsError ''TypeError'' ''Failed to fetch'')))
        (stopBtn_click (main page0)) =
      Some (stop_catch (JsError ''TypeError'' ''Failed to fetch'')
        ((stopBtn_click (main page0))\<lparr>pending := [AwaitFetch CheckStatus]\<rparr>))
   \<and> errorDiv_textContent (stop_catch (JsError ''TypeError'' ''Failed to fetch'')
        ((stopBtn_click (main page0))\<lparr>pending := [AwaitFetch CheckStatus]\<rparr>))
        \<noteq> errorDiv_textContent (stopBtn_click (main page0))
   \<and> failure_event (FetchSettles 1 (Rejected (JsError ''TypeError'' ''Failed to fetch'')))
        (stopBtn_click (main page0))
   \<and> \<not> failure_event (FetchSettles 0 (Rejected (JsError ''TypeError'' ''Failed to fetch'')))
        (stopBtn_click (main page0))
   \<and> get_prop (JObj [(''status'', JStr ''error'')]) ''status'' = Inr (Some (JStr ''error''))
   \<and> get_prop (JObj [(''status'', JStr ''error'')]) ''message'' = Inr None
   \<and> errorDiv_textContent
        (start_data (Fulfilled (JObj [(''status'', JStr ''error'')])) (onerror (main page0))) = []"
proof -
  have d: "errorDiv_display (onerror (main page0)) = ''block''"
    by (simp add: onerror_def)
  have r: "run [ClickStop, FetchSettles 1 (Fulfilled ()), JsonSettles 1 (Fulfilled (JObj []))]
        (onerror (main page0)) =
      Some (checkStatus (stopBtn_click (onerror (main page0)))\<lparr>pending :=
        [AwaitFetch CheckStatus, AwaitFetch CheckStatus]\<rparr>)"
    by (simp add: eval_defs seg_defs)
  have st: "step (FetchSettles 1 (Rejected (JsError ''TypeError'' ''Failed to fetch'')))
        (stopBtn_click (main page0)) =
      Some (stop_catch (JsError ''TypeError'' ''Failed to fetch'')
        ((stopBtn_click (main page0))\<lparr>pending := [AwaitFetch CheckStatus]\<rparr>))"
    by (simp add: eval_defs seg_defs)
  have ch: "errorDiv_textContent (stop_catch (JsError ''TypeError'' ''Failed to fetch'')
        ((stopBtn_click (main page0))\<lparr>pending := [AwaitFetch CheckStatus]\<rparr>))
        \<noteq> errorDiv_textContent (stopBtn_click (main page0))"
    by (simp add: eval_defs seg_defs)
  have nf: "\<not> failure_event (FetchSettles 0 (Rejected (JsError ''TypeError'' ''Failed to fetch'')))
        (stopBtn_click (main page0))"
    by (simp add: failure_event_def eval_defs seg_defs)
  have g: "get_prop (JObj [(''status'', JStr ''error'')]) ''status'' = Inr (Some (JStr ''error''))"
    "get_prop (JObj [(''status'', JStr ''error'')]) ''message'' = Inr None"
    by simp_all
  from error_banner_stays_visible [of "onerror (main page0)"
      "[ClickStop, FetchSettles 1 (Fulfilled ()), JsonSettles 1 (Fulfilled (JObj []))]"
      "checkStatus (stopBtn_click (onerror (main page0)))\<lparr>pending :=
        [AwaitFetch CheckStatus, AwaitFetch CheckStatus]\<rparr>"
      "FetchSettles 1 (Rejected (JsError ''TypeError'' ''Failed to fetch''))"
      "stopBtn_click (main page0)"
      "stop_catch (JsError ''TypeError'' ''Failed to fetch'')
        ((stopBtn_click (main page0))\<lparr>pending := [AwaitFetch CheckStatus]\<rparr>)"
      "JObj [(''status'', JStr ''error'')]" "onerror (main page0)"] d r st ch nf g
  show ?thesis by simp
qed

theorem empty_message_clears_banner_counterexample:
  "map_option errorDiv_textContent (run [VideoError] (main page0)) =
     Some ''Video feed error. Retrying...''
   \<and> map_option errorDiv_textContent
       (run [VideoError, ClickStart, FetchSettles 1 (Fulfilled ()),
             JsonSettles 1 (Fulfilled (JObj [(''status'', JStr ''error'')]))] (main page0)) =
     Some []"
  by (simp add: eval_defs seg_defs)

end
